theory Spec2Isabelle
  imports Complex_Main "HOL-Library.Word" "HOL-Library.Multiset"
begin

unbundle bit_operations_syntax

section \<open>JavaScript values used by the editor\<close>

text \<open>
  A JavaScript string is a sequence of 16-bit code units. Literals of the source are
  written through \<open>js\<close>, which maps an ASCII literal to its code units.

  A JavaScript \<open>number\<close> is modelled by the real value it denotes. The time codec
  (\<open>toString\<close>, \<open>parseInt\<close>, \<open>parseFloat\<close>, \<open>formatLrcTime\<close>, \<open>parseLrcTime\<close>)
  rounds the result of each operation to binary64 with \<open>round64\<close>, as the source does; the
  comparisons, and the sums and differences of the line store, are taken on the values
  themselves. \<open>NaN\<close> occurs only as the failure value of \<open>parseInt\<close> and
  \<open>parseFloat\<close>, written \<open>None\<close>. The infinities (a magnitude from \<open>2^1024\<close> on, the
  literal \<open>Infinity\<close> of \<open>parseFloat\<close>) and the sign of zero are outside this type.
\<close>

type_synonym codeunit = "16 word"
type_synonym jsstring = "codeunit list"
type_synonym number = real

definition js :: "string \<Rightarrow> jsstring" where
  "js s = map (\<lambda>c. of_nat (of_char c)) s"

text \<open>
  \<open>WhiteSpace\<close> and \<open>LineTerminator\<close> of ECMAScript: the code units that
  \<open>String.prototype.trim\<close>, \<open>parseInt\<close> and \<open>parseFloat\<close> skip.
\<close>

definition isWhiteSpace :: "codeunit \<Rightarrow> bool" where
  "isWhiteSpace c \<longleftrightarrow>
     c \<in> {0x0009, 0x000A, 0x000B, 0x000C, 0x000D, 0x0020, 0x00A0, 0x1680,
          0x2028, 0x2029, 0x202F, 0x205F, 0x3000, 0xFEFF}
     \<or> (0x2000 \<le> c \<and> c \<le> 0x200A)"

definition trim :: "jsstring \<Rightarrow> jsstring" where
  "trim s = rev (dropWhile isWhiteSpace (rev (dropWhile isWhiteSpace s)))"

text \<open>
  \<open>s.split(c)\<close> for a separator of one code unit: the empty string gives one empty part,
  so the result always has a first part for the next code unit to join.
\<close>

fun split :: "codeunit \<Rightarrow> jsstring \<Rightarrow> jsstring list" where
  "split sep [] = [[]]"
| "split sep (c # cs) =
     (if c = sep then [] # split sep cs
      else (case split sep cs of
              p # ps \<Rightarrow> (c # p) # ps
            | [] \<Rightarrow> [[c]]))"

text \<open>\<open>parts.join(sep)\<close>.\<close>

fun join :: "jsstring \<Rightarrow> jsstring list \<Rightarrow> jsstring" where
  "join sep [] = []"
| "join sep [p] = p"
| "join sep (p # q # ps) = p @ sep @ join sep (q # ps)"

text \<open>\<open>s.padStart(n, f)\<close> for a filler \<open>f\<close> of one code unit.\<close>

definition padStart :: "nat \<Rightarrow> codeunit \<Rightarrow> jsstring \<Rightarrow> jsstring" where
  "padStart n f s = replicate (n - length s) f @ s"

subsection \<open>Decimal digits\<close>

definition isDigit :: "codeunit \<Rightarrow> bool" where
  "isDigit c \<longleftrightarrow> 0x30 \<le> c \<and> c \<le> 0x39"

definition digitValue :: "codeunit \<Rightarrow> nat" where
  "digitValue c = unat c - 48"

definition digitChar :: "nat \<Rightarrow> codeunit" where
  "digitChar d = of_nat (48 + d)"

text \<open>The decimal digits of a natural number, most significant first.\<close>

fun digits :: "nat \<Rightarrow> nat list" where
  "digits n = (if n < 10 then [n] else digits (n div 10) @ [n mod 10])"

declare digits.simps [simp del]

definition decimal :: "nat \<Rightarrow> jsstring" where
  "decimal n = map digitChar (digits n)"

text \<open>The value of a string of decimal digits (0 for the empty string).\<close>

definition digitsValue :: "jsstring \<Rightarrow> nat" where
  "digitsValue s = foldl (\<lambda>a c. 10 * a + digitValue c) 0 s"

subsection \<open>Rounding to binary64\<close>

text \<open>The nearest integer, a tie going to the even one.\<close>

definition roundEven :: "real \<Rightarrow> int" where
  "roundEven x =
     (let f = \<lfloor>x\<rfloor>; d = x - of_int f
      in if d < 1 / 2 then f else if 1 / 2 < d then f + 1 else if even f then f else f + 1)"

text \<open>
  The binary exponent of a positive value: \<open>e\<close> with \<open>2^e \<le> x < 2^(e+1)\<close>, found by
  halving or doubling, and not below \<open>-1022\<close>, where the subnormal values begin.
\<close>

fun binadeUp :: "nat \<Rightarrow> real \<Rightarrow> int" where
  "binadeUp 0 x = 0"
| "binadeUp (Suc n) x = (if x < 2 then 0 else binadeUp n (x / 2) + 1)"

fun binadeDown :: "nat \<Rightarrow> real \<Rightarrow> int" where
  "binadeDown 0 x = 0"
| "binadeDown (Suc n) x = (if 1 \<le> x then 0 else binadeDown n (x * 2) - 1)"

definition binade :: "real \<Rightarrow> int" where
  "binade x = (if 1 \<le> x then binadeUp 1024 x else binadeDown 1022 x)"

text \<open>
  The binary64 value nearest to a real: 53 significant bits, so the spacing in the binade
  \<open>e\<close> is \<open>2^(e-52)\<close>; a tie goes to the even significand.
\<close>

definition round64 :: "real \<Rightarrow> real" where
  "round64 x =
     (if x = 0 then 0
      else (let q = 2 powi (binade \<bar>x\<bar> - 52)
            in sgn x * of_int (roundEven (\<bar>x\<bar> / q)) * q))"

subsection \<open>Number.prototype.toString on integral values\<close>

text \<open>
  \<open>formatLrcTime\<close> calls \<open>toString()\<close> only on results of \<open>Math.floor\<close>.
  \<open>Number::toString\<close> writes the shortest decimal digits that still round to the number,
  and of several such the ones nearest to it (a tie going to the even last digit), filled
  up with zeros: \<open>shortest\<close> is the integer so written. Below \<open>2^53\<close> every integer is
  a binary64 value and no other integer rounds to it, so the digits are its own. When the
  integer written is below \<open>10^21\<close> the result is its decimal digits; from \<open>10^21\<close> on
  ECMAScript switches to exponential notation: the significant digits (no trailing zeros),
  a point after the first when there are several, then \<open>e+\<close> and the decimal exponent.
\<close>

fun shortestDigits :: "nat \<Rightarrow> nat \<Rightarrow> nat \<Rightarrow> nat" where
  "shortestDigits 0 j n = n"
| "shortestDigits (Suc f) j n =
     (if j = 0 then n
      else (let lo = n div 10 ^ j * 10 ^ j;
                hi = lo + 10 ^ j;
                okLo = (round64 (real lo) = real n);
                okHi = (round64 (real hi) = real n)
            in if okLo \<and> okHi then
                 (if n - lo < hi - n then lo
                  else if hi - n < n - lo then hi
                  else if even (n div 10 ^ j) then lo else hi)
               else if okLo then lo
               else if okHi then hi
               else shortestDigits f (j - 1) n))"

definition shortest :: "nat \<Rightarrow> nat" where
  "shortest n =
     (if n < 2 ^ 53 then n
      else shortestDigits (length (digits n)) (length (digits n) - 1) n)"

definition stripTrailingZeros :: "nat list \<Rightarrow> nat list" where
  "stripTrailingZeros ds = rev (dropWhile (\<lambda>d. d = 0) (rev ds))"

definition natToString :: "nat \<Rightarrow> jsstring" where
  "natToString n =
     (if n < 10 ^ 21 then decimal n
      else let ds = digits n;
               sig = stripTrailingZeros ds
           in digitChar (hd sig)
              # (if tl sig = [] then [] else js ''.'' @ map digitChar (tl sig))
              @ js ''e+'' @ decimal (length ds - 1))"

definition toString :: "int \<Rightarrow> jsstring" where
  "toString i =
     (if i < 0 then js ''-'' @ natToString (shortest (nat (- i)))
      else natToString (shortest (nat i)))"

subsection \<open>The remainder operator, parseInt and parseFloat\<close>

text \<open>
  \<open>x % y\<close> on numbers: the remainder of the division truncated towards zero. The
  remainder of two binary64 values is a binary64 value, so nothing is rounded here.
\<close>

definition trunc :: "number \<Rightarrow> int" where
  "trunc x = (if x < 0 then \<lceil>x\<rceil> else \<lfloor>x\<rfloor>)"

definition jsmod :: "number \<Rightarrow> number \<Rightarrow> number" where
  "jsmod x y = x - y * of_int (trunc (x / y))"

text \<open>
  \<open>parseInt(s, 10)\<close>: leading white space is skipped, one sign is read, then the longest
  run of decimal digits; no digit gives \<open>NaN\<close>. The result is the binary64 value nearest
  to the integer read.
\<close>

definition parseInt :: "jsstring \<Rightarrow> number option" where
  "parseInt s =
     (let t = dropWhile isWhiteSpace s;
          neg = (t \<noteq> [] \<and> hd t = 0x2D);
          u = (if t \<noteq> [] \<and> (hd t = 0x2B \<or> hd t = 0x2D) then tl t else t);
          z = takeWhile isDigit u
      in if z = [] then None
         else Some (round64 (if neg then - real (digitsValue z) else real (digitsValue z))))"

text \<open>
  \<open>parseFloat(s)\<close>: leading white space is skipped, then the longest prefix that is a
  \<open>StrDecimalLiteral\<close> is read: a sign, digits, a point with digits, an exponent. At least
  one digit is needed before the exponent, and an exponent counts only with a digit in it.
  The result is the binary64 value nearest to the decimal value read. The alternative
  \<open>Infinity\<close> of the grammar has no value in \<open>number\<close>: the model finds no digit
  there and gives \<open>None\<close>.
\<close>

definition parseExponent :: "jsstring \<Rightarrow> int" where
  "parseExponent r =
     (if r \<noteq> [] \<and> (hd r = 0x65 \<or> hd r = 0x45) then
        (let e = tl r;
             neg = (e \<noteq> [] \<and> hd e = 0x2D);
             d = (if e \<noteq> [] \<and> (hd e = 0x2B \<or> hd e = 0x2D) then tl e else e);
             z = takeWhile isDigit d
         in if z = [] then 0
            else if neg then - int (digitsValue z) else int (digitsValue z))
      else 0)"

definition parseFloat :: "jsstring \<Rightarrow> number option" where
  "parseFloat s =
     (let t = dropWhile isWhiteSpace s;
          neg = (t \<noteq> [] \<and> hd t = 0x2D);
          u = (if t \<noteq> [] \<and> (hd t = 0x2B \<or> hd t = 0x2D) then tl t else t);
          ip = takeWhile isDigit u;
          r1 = dropWhile isDigit u;
          point = (r1 \<noteq> [] \<and> hd r1 = 0x2E);
          fp = (if point then takeWhile isDigit (tl r1) else []);
          r2 = (if point then dropWhile isDigit (tl r1) else r1)
      in if ip = [] \<and> fp = [] then None
         else
           (let mant = of_nat (digitsValue ip) + of_nat (digitsValue fp) / 10 ^ length fp;
                v = mant * 10 powi parseExponent r2
            in Some (round64 (if neg then - v else v))))"

section \<open>The time codec\<close>

text \<open>\<open>formatLrcTime\<close>: seconds to \<open>[mm:ss.xx]\<close>.\<close>

definition formatLrcTime :: "number \<Rightarrow> jsstring" where
  "formatLrcTime seconds =
     (let m = \<lfloor>round64 (seconds / 60)\<rfloor>;
          s = \<lfloor>jsmod seconds 60\<rfloor>;
          ms = \<lfloor>round64 (jsmod seconds 1 * 100)\<rfloor>;
          mStr = padStart 2 0x30 (toString m);
          sStr = padStart 2 0x30 (toString s);
          msStr = padStart 2 0x30 (toString ms)
      in js ''['' @ mStr @ js '':'' @ sStr @ js ''.'' @ msStr @ js '']'')"

text \<open>\<open>parseLrcTime\<close>: \<open>[mm:ss.xx]\<close> or \<open>mm:ss.xx\<close> to seconds, 0 when it cannot be read.\<close>

definition parseLrcTime :: "jsstring \<Rightarrow> number" where
  "parseLrcTime timeStr =
     (let cleanStr = filter (\<lambda>c. c \<noteq> 0x5B \<and> c \<noteq> 0x5D) timeStr;
          parts = split 0x3A cleanStr
      in if length parts \<noteq> 2 then 0
         else
           (let minutes = parseInt (parts ! 0);
                seconds = parseFloat (parts ! 1)
            in case (minutes, seconds) of
                 (Some m, Some s) \<Rightarrow> round64 (round64 (m * 60) + s)
               | _ \<Rightarrow> 0))"

section \<open>The document\<close>

text \<open>
  \<open>LyricLine\<close> and \<open>MetaData\<close> of \<open>types.ts\<close>. The fields \<open>id\<close>, \<open>text\<close> and \<open>by\<close>
  are named \<open>line_id\<close>, \<open>line_text\<close> and \<open>meta_by\<close>. The optional field
  \<open>needsReview\<close> is \<open>None\<close> when the object has no such property.
\<close>

record LyricLine =
  line_id :: jsstring
  timestamp :: number
  line_text :: jsstring
  needsReview :: "bool option"

record MetaData =
  title :: jsstring
  artist :: jsstring
  album :: jsstring
  meta_by :: jsstring

datatype AppStatus = IDLE | PROCESSING | EDITING | ERROR

datatype error = Error jsstring | TypeError | SyntaxError

text \<open>What \<open>alert\<close> has shown: the size warning, or the analysis error with the error caught.\<close>

datatype alert = FileTooLarge | AnalysisError error

text \<open>
  The state of the \<open>App\<close> component that the handlers read and write; \<open>alerts\<close> are
  the messages shown to the user so far, oldest first.
\<close>

record AppState =
  status :: AppStatus
  lines :: "LyricLine list"
  meta :: MetaData
  currentTime :: number
  alerts :: "alert list"

text \<open>
  \<open>Partial<LyricLine>\<close>: each property is present (\<open>Some\<close>) or absent. The object
  spread \<open>{ ...line, ...updates }\<close> takes every property that \<open>updates\<close> has.
\<close>

record LineUpdates =
  upd_id :: "jsstring option"
  upd_timestamp :: "number option"
  upd_text :: "jsstring option"
  upd_needsReview :: "bool option option"

definition noUpdates :: LineUpdates where
  "noUpdates = \<lparr>upd_id = None, upd_timestamp = None, upd_text = None, upd_needsReview = None\<rparr>"

definition spread :: "LyricLine \<Rightarrow> LineUpdates \<Rightarrow> LyricLine" where
  "spread line updates =
     \<lparr>line_id = (case upd_id updates of None \<Rightarrow> line_id line | Some v \<Rightarrow> v),
      timestamp = (case upd_timestamp updates of None \<Rightarrow> timestamp line | Some v \<Rightarrow> v),
      line_text = (case upd_text updates of None \<Rightarrow> line_text line | Some v \<Rightarrow> v),
      needsReview = (case upd_needsReview updates of None \<Rightarrow> needsReview line | Some v \<Rightarrow> v)\<rparr>"

section \<open>The line store\<close>

definition handleUpdateLine :: "jsstring \<Rightarrow> LineUpdates \<Rightarrow> AppState \<Rightarrow> AppState" where
  "handleUpdateLine i updates st =
     st\<lparr>lines := map (\<lambda>line. if line_id line = i then spread line updates else line) (lines st)\<rparr>"

text \<open>\<open>confirmed\<close> is the answer of the \<open>confirm\<close> dialog.\<close>

definition handleDeleteLine :: "bool \<Rightarrow> jsstring \<Rightarrow> AppState \<Rightarrow> AppState" where
  "handleDeleteLine confirmed i st =
     (if confirmed then st\<lparr>lines := filter (\<lambda>line. line_id line \<noteq> i) (lines st)\<rparr> else st)"


text \<open>
  \<open>player\<close> is \<open>playerRef.current\<close>: \<open>None\<close> when no audio element is mounted, else the
  element's \<open>currentTime\<close>.
\<close>

definition handleSync :: "number option \<Rightarrow> jsstring \<Rightarrow> AppState \<Rightarrow> AppState" where
  "handleSync player i st =
     (case player of
        None \<Rightarrow> st
      | Some time \<Rightarrow>
          handleUpdateLine i (noUpdates\<lparr>upd_timestamp := Some time, upd_needsReview := Some (Some False)\<rparr>) st)"

text \<open>The handler of the button that adds a line at the end.\<close>

definition appendLine :: "jsstring \<Rightarrow> AppState \<Rightarrow> AppState" where
  "appendLine newId st =
     st\<lparr>lines := lines st @ [\<lparr>line_id = newId, timestamp = currentTime st, line_text = [],
                               needsReview = None\<rparr>]\<rparr>"

text \<open>
  \<open>adjustTime\<close> of \<open>EditorRow\<close>: \<open>line\<close> is the row's line, \<open>onUpdate\<close> is
  \<open>handleUpdateLine\<close>.
\<close>

definition adjustTime :: "LyricLine \<Rightarrow> number \<Rightarrow> AppState \<Rightarrow> AppState" where
  "adjustTime line delta st =
     handleUpdateLine (line_id line)
       (noUpdates\<lparr>upd_timestamp := Some (max 0 (timestamp line + delta))\<rparr>) st"

section \<open>The active line\<close>

function activeLoop :: "number \<Rightarrow> LyricLine list \<Rightarrow> nat \<Rightarrow> int \<Rightarrow> int" where
  "activeLoop t ls i index =
     (if i < length ls then
        (if t \<ge> timestamp (ls ! i) then activeLoop t ls (i + 1) (int i) else index)
      else index)"
  by pat_completeness auto
termination
  by (relation "measure (\<lambda>(t, ls, i, index). length ls - i)") auto

declare activeLoop.simps [simp del]

definition activeLineIndex :: "AppState \<Rightarrow> int" where
  "activeLineIndex st = activeLoop (currentTime st) (lines st) 0 (- 1)"

section \<open>The export\<close>

text \<open>
  \<open>Array.prototype.sort(compareFn)\<close> is a stable sort by the sign of \<open>compareFn\<close>: an
  element stays behind the elements that compare equal to it and came before it.
\<close>

fun insertBy :: "('a \<Rightarrow> 'a \<Rightarrow> number) \<Rightarrow> 'a \<Rightarrow> 'a list \<Rightarrow> 'a list" where
  "insertBy cmp x [] = [x]"
| "insertBy cmp x (y # ys) = (if cmp x y \<le> 0 then x # y # ys else y # insertBy cmp x ys)"

fun arraySort :: "('a \<Rightarrow> 'a \<Rightarrow> number) \<Rightarrow> 'a list \<Rightarrow> 'a list" where
  "arraySort cmp [] = []"
| "arraySort cmp (x # xs) = insertBy cmp x (arraySort cmp xs)"

definition newline :: jsstring where
  "newline = [0x0A]"

definition generateLrcOutput :: "AppState \<Rightarrow> jsstring" where
  "generateLrcOutput st =
     (let metaHeader = js ''[ti:'' @ title (meta st) @ js '']'' @ newline
                     @ js ''[ar:'' @ artist (meta st) @ js '']'' @ newline
                     @ js ''[al:'' @ album (meta st) @ js '']'' @ newline
                     @ js ''[by:'' @ meta_by (meta st) @ js '']'' @ newline;
          sortedLines = arraySort (\<lambda>a b. timestamp a - timestamp b) (lines st);
          body = join newline (map (\<lambda>line. formatLrcTime (timestamp line) @ line_text line) sortedLines)
      in metaHeader @ body)"

section \<open>The sync controller\<close>

text \<open>
  The lines of the manual mode, as both \<open>handleAutoProcess\<close> and the \<open>catch\<close> of
  \<open>analyzeLyricsWithAudio\<close> build them; \<open>ids k\<close> is the identifier drawn for the line
  at position \<open>k\<close>.
\<close>

definition fallbackLines :: "(nat \<Rightarrow> jsstring) \<Rightarrow> jsstring \<Rightarrow> LyricLine list" where
  "fallbackLines ids text =
     map (\<lambda>(k, l). \<lparr>line_id = ids k, timestamp = 0, line_text = trim l, needsReview = Some True\<rparr>)
       (enumerate 0 (filter (\<lambda>l. trim l \<noteq> []) (split 0x0A text)))"

text \<open>
  One entry of the parsed response. \<open>time\<close> is \<open>None\<close> when the property is no string
  (\<open>timeStr.replace\<close> then throws). \<open>confidence\<close> is the number that the comparison
  \<open>line.confidence < 0.7\<close> converts the property to: the number itself, 0 for \<open>null\<close> and
  \<open>false\<close>, 1 for \<open>true\<close>, the value of a numeric string; it is \<open>None\<close> when the
  conversion gives \<open>NaN\<close> (the property is missing, or a text that is no number), and
  the comparison is then false.
\<close>

record AiEntry =
  time :: "jsstring option"
  entry_text :: jsstring
  confidence :: "number option"

text \<open>
  What the call of the model gives: the request is rejected with a message, the response
  has no text, the text is no JSON, the JSON has no \<open>lines\<close> array, or it has one.
\<close>

datatype AiResponse =
  Rejected jsstring
| NoText
| BadJson
| NoLines
| Lines "AiEntry list"

fun mapLines :: "(nat \<Rightarrow> jsstring) \<Rightarrow> nat \<Rightarrow> AiEntry list \<Rightarrow> error + LyricLine list" where
  "mapLines ids k [] = Inr []"
| "mapLines ids k (e # es) =
     (case time e of
        None \<Rightarrow> Inl TypeError
      | Some t \<Rightarrow>
          (case mapLines ids (Suc k) es of
             Inl err \<Rightarrow> Inl err
           | Inr ls \<Rightarrow>
               Inr (\<lparr>line_id = ids k, timestamp = parseLrcTime t, line_text = entry_text e,
                      needsReview = Some (case confidence e of None \<Rightarrow> False | Some c \<Rightarrow> c < 7 / 10)\<rparr>
                    # ls)))"

text \<open>The body of the \<open>try\<close> block of \<open>analyzeLyricsWithAudio\<close>.\<close>

definition tryAnalyze :: "(nat \<Rightarrow> jsstring) \<Rightarrow> AiResponse \<Rightarrow> error + LyricLine list" where
  "tryAnalyze ids response =
     (case response of
        Rejected msg \<Rightarrow> Inl (Error msg)
      | NoText \<Rightarrow> Inl (Error (js ''No response from AI''))
      | BadJson \<Rightarrow> Inl SyntaxError
      | NoLines \<Rightarrow> Inl TypeError
      | Lines es \<Rightarrow> mapLines ids 0 es)"

text \<open>The \<open>catch\<close> logs to the console and returns the lines of the manual mode.\<close>

definition analyzeLyricsWithAudio ::
    "(nat \<Rightarrow> jsstring) \<Rightarrow> AiResponse \<Rightarrow> jsstring \<Rightarrow> LyricLine list" where
  "analyzeLyricsWithAudio ids response rawLyrics =
     (case tryAnalyze ids response of
        Inr ls \<Rightarrow> ls
      | Inl err \<Rightarrow> fallbackLines ids rawLyrics)"

text \<open>
  What \<open>handleAutoProcess\<close> meets: the two files (the size of the audio file is all that is
  read of them here), the result of \<open>fileToBase64\<close>, the result of \<open>textFile.text()\<close> in
  the \<open>try\<close> block and again in the fallback, the response of the model, and the
  identifiers drawn.
\<close>

record Inputs =
  audioFile :: "nat option"
  textFile :: "unit option"
  encoded :: "error + jsstring"
  textRead :: "error + jsstring"
  textReread :: "error + jsstring"
  response :: AiResponse
  idSupply :: "nat \<Rightarrow> jsstring"

text \<open>The \<open>catch\<close> of \<open>handleAutoProcess\<close>.\<close>

definition processingFailed :: "Inputs \<Rightarrow> error \<Rightarrow> AppState \<Rightarrow> AppState" where
  "processingFailed inp err st =
     (let st' = st\<lparr>alerts := alerts st @ [AnalysisError err]\<rparr>
      in case textReread inp of
           Inr text \<Rightarrow> st'\<lparr>lines := fallbackLines (idSupply inp) text, status := EDITING\<rparr>
         | Inl e \<Rightarrow> st'\<lparr>status := IDLE\<rparr>)"

definition handleAutoProcess :: "Inputs \<Rightarrow> AppState \<Rightarrow> AppState" where
  "handleAutoProcess inp st =
     (case (audioFile inp, textFile inp) of
        (Some bytes, Some u) \<Rightarrow>
          if bytes > 25 * 1024 * 1024 then st\<lparr>alerts := alerts st @ [FileTooLarge]\<rparr>
          else
            (let st1 = st\<lparr>status := PROCESSING\<rparr>
             in case encoded inp of
                  Inl err \<Rightarrow> processingFailed inp err st1
                | Inr audioB64 \<Rightarrow>
                    (case textRead inp of
                       Inl err \<Rightarrow> processingFailed inp err st1
                     | Inr textContent \<Rightarrow>
                         (let generatedLines =
                                analyzeLyricsWithAudio (idSupply inp) (response inp) textContent
                          in st1\<lparr>lines := generatedLines, status := EDITING\<rparr>)))
      | _ \<Rightarrow> st)"

section \<open>Example documents\<close>

text \<open>The state in which \<open>App\<close> starts.\<close>

definition initialState :: AppState where
  "initialState =
     \<lparr>status = IDLE, lines = [],
      meta = \<lparr>title = [], artist = [], album = [], meta_by = js ''LyricalSync AI''\<rparr>,
      currentTime = 0, alerts = []\<rparr>"

text \<open>A line as the editor inserts it, and a document being edited at a playback position.\<close>

definition exampleLine :: "string \<Rightarrow> number \<Rightarrow> string \<Rightarrow> LyricLine" where
  "exampleLine i t s = \<lparr>line_id = js i, timestamp = t, line_text = js s, needsReview = None\<rparr>"

definition editing :: "LyricLine list \<Rightarrow> number \<Rightarrow> AppState" where
  "editing ls t = initialState\<lparr>status := EDITING, lines := ls, currentTime := t\<rparr>"

text \<open>The invariant of the data model: no line has a negative timestamp.\<close>

definition nonNegative :: "AppState \<Rightarrow> bool" where
  "nonNegative st = list_all (\<lambda>line. 0 \<le> timestamp line) (lines st)"

text \<open>What \<open>handleAutoProcess\<close> meets when both files are there and read without error.\<close>

definition filesRead :: "jsstring \<Rightarrow> AiResponse \<Rightarrow> Inputs" where
  "filesRead rawLyrics r =
     \<lparr>audioFile = Some 1000, textFile = Some (), encoded = Inr (js ''QUJD''),
      textRead = Inr rawLyrics, textReread = Inr rawLyrics, response = r,
      idSupply = (\<lambda>k. js ''id'' @ decimal k)\<rparr>"

section \<open>Evaluation of literals and digits\<close>

lemma js_Nil [simp]: "js [] = []"
  by (simp add: js_def)

lemma js_Cons [simp]: "js (c # cs) = of_nat (of_char c) # js cs"
  by (simp add: js_def)

lemma digits_numeral [simp]:
  "digits (numeral k) =
     (if (numeral k :: nat) < 10 then [numeral k]
      else digits (numeral k div 10) @ [numeral k mod 10])"
  by (rule digits.simps)

lemma digits_0 [simp]: "digits 0 = [0]"
  by (simp add: digits.simps)

lemma digits_1 [simp]: "digits (Suc 0) = [1]"
  by (simp add: digits.simps)

lemma binadeUp_numeral [simp]:
  "binadeUp (numeral k) x = (if x < 2 then 0 else binadeUp (pred_numeral k) (x / 2) + 1)"
  by (simp add: numeral_eq_Suc)

lemma binadeDown_numeral [simp]:
  "binadeDown (numeral k) x = (if 1 \<le> x then 0 else binadeDown (pred_numeral k) (x * 2) - 1)"
  by (simp add: numeral_eq_Suc)

lemmas example_defs = initialState_def exampleLine_def editing_def

lemmas round_defs = round64_def binade_def roundEven_def Let_def

lemmas format_defs = formatLrcTime_def jsmod_def trunc_def toString_def shortest_def
  natToString_def decimal_def digitChar_def padStart_def round_defs

lemmas parse_defs = parseLrcTime_def parseInt_def parseFloat_def parseExponent_def
  isWhiteSpace_def isDigit_def digitsValue_def digitValue_def round_defs

section \<open>Mutations by identifier\<close>

text \<open>
  C7. When no line of the document has the identifier, \<open>deleteLine\<close> (whatever the
  answer to the confirmation) and \<open>updateLine\<close> (whatever the fields) return the state
  they were given: the same lines in the same order, the same metadata.
\<close>

theorem unknown_id_noop:
  assumes "i \<notin> line_id ` set (lines st)"
  shows "handleDeleteLine confirmed i st = st \<and> handleUpdateLine i updates st = st"
proof -
  have f: "filter (\<lambda>line. line_id line \<noteq> i) (lines st) = lines st"
    using assms by (auto simp: filter_id_conv)
  have m: "map (\<lambda>line. if line_id line = i then spread line updates else line) (lines st)
           = lines st"
    using assms by (intro map_idI) auto
  show ?thesis
    by (simp add: handleDeleteLine_def handleUpdateLine_def f m)
qed

theorem unknown_id_noop_witness:
  "js ''zz'' \<notin> line_id ` set (lines (editing [exampleLine ''a'' 5 ''x'', exampleLine ''b'' 7 ''y''] 0))
   \<and> handleDeleteLine True (js ''zz'') (editing [exampleLine ''a'' 5 ''x'', exampleLine ''b'' 7 ''y''] 0)
       = editing [exampleLine ''a'' 5 ''x'', exampleLine ''b'' 7 ''y''] 0
   \<and> handleUpdateLine (js ''zz'') (noUpdates\<lparr>upd_timestamp := Some 9\<rparr>)
         (editing [exampleLine ''a'' 5 ''x'', exampleLine ''b'' 7 ''y''] 0)
       = editing [exampleLine ''a'' 5 ''x'', exampleLine ''b'' 7 ''y''] 0"
proof -
  have h: "js ''zz'' \<notin> line_id ` set (lines (editing [exampleLine ''a'' 5 ''x'', exampleLine ''b'' 7 ''y''] 0))"
    by (simp add: example_defs)
  from unknown_id_noop [OF h] h show ?thesis
    by blast
qed

text \<open>
  C9. With a player mounted, \<open>syncToPlayback\<close> gives every line that has the identifier
  the playback position as timestamp and \<open>needsReview = false\<close>, whatever the flag was;
  the identifier and the text of such a line, every other line, the order of the lines and
  the rest of the state stay as they were.
\<close>

theorem handleSync_sets:
  "handleSync (Some t) i st =
     st\<lparr>lines := map (\<lambda>line. if line_id line = i
                               then line\<lparr>timestamp := t, needsReview := Some False\<rparr>
                               else line) (lines st)\<rparr>"
proof -
  have "spread line (noUpdates\<lparr>upd_timestamp := Some t, upd_needsReview := Some (Some False)\<rparr>)
        = line\<lparr>timestamp := t, needsReview := Some False\<rparr>" for line :: LyricLine
    by (simp add: spread_def noUpdates_def)
  then show ?thesis
    by (simp add: handleSync_def handleUpdateLine_def)
qed

section \<open>Insertion after a line\<close>



section \<open>The active line\<close>

lemma activeLoop_takeWhile:
  "i \<le> length ls \<Longrightarrow>
   activeLoop t ls i idx =
     (if i < length ls \<and> timestamp (ls ! i) \<le> t
      then int (i + length (takeWhile (\<lambda>line. timestamp line \<le> t) (drop i ls))) - 1
      else idx)"
proof (induction t ls i idx rule: activeLoop.induct)
  case (1 t ls i index)
  show ?case
  proof (cases "i < length ls \<and> timestamp (ls ! i) \<le> t")
    case False
    then show ?thesis by (subst activeLoop.simps) auto
  next
    case here: True
    then have d: "drop i ls = ls ! i # drop (Suc i) ls"
      by (simp add: Cons_nth_drop_Suc)
    have ih: "activeLoop t ls (i + 1) (int i) =
       (if i + 1 < length ls \<and> timestamp (ls ! (i + 1)) \<le> t
        then int (i + 1 + length (takeWhile (\<lambda>line. timestamp line \<le> t) (drop (i + 1) ls))) - 1
        else int i)"
      using here by (intro "1.IH") auto
    show ?thesis
    proof (cases "i + 1 < length ls \<and> timestamp (ls ! (i + 1)) \<le> t")
      case True
      with here ih d show ?thesis
        by (subst activeLoop.simps) simp
    next
      case False
      then have "takeWhile (\<lambda>line. timestamp line \<le> t) (drop (Suc i) ls) = []"
        by (cases "Suc i < length ls") (auto simp: takeWhile_eq_Nil_iff hd_drop_conv_nth)
      with False here ih d show ?thesis
        by (subst activeLoop.simps) simp
    qed
  qed
qed

lemma activeLineIndex_takeWhile:
  "activeLineIndex st
   = int (length (takeWhile (\<lambda>line. timestamp line \<le> currentTime st) (lines st))) - 1"
  by (cases "lines st") (simp_all add: activeLineIndex_def activeLoop_takeWhile)

text \<open>
  C2. The active index is the length of the longest initial run of lines whose timestamp is
  at most the playback position, minus one: the scan goes from the front and stops at the
  first line whose timestamp exceeds the position, so every line up to the index has a
  timestamp at most the position and the line after the index, when there is one, lies
  beyond it. It is \<open>-1\<close> exactly when there is no line or the position is before the first
  line's timestamp. For the timestamps 0, 10, 20 the index is \<open>-1\<close> before 0, 0 from 0 on,
  1 from 10 on and 2 from 20 on.
\<close>

theorem activeLineIndex_scan:
  "activeLineIndex st
     = int (length (takeWhile (\<lambda>line. timestamp line \<le> currentTime st) (lines st))) - 1
   \<and> - 1 \<le> activeLineIndex st \<and> activeLineIndex st < int (length (lines st))
   \<and> (activeLineIndex st = - 1
        \<longleftrightarrow> lines st = [] \<or> currentTime st < timestamp (hd (lines st)))
   \<and> (\<forall>k < length (lines st). int k \<le> activeLineIndex st
          \<longrightarrow> timestamp (lines st ! k) \<le> currentTime st)
   \<and> (nat (activeLineIndex st + 1) < length (lines st)
          \<longrightarrow> currentTime st < timestamp (lines st ! nat (activeLineIndex st + 1)))
   \<and> (map timestamp (lines st) = [0, 10, 20]
          \<longrightarrow> activeLineIndex st = (if currentTime st < 0 then - 1
                                    else if currentTime st < 10 then 0
                                    else if currentTime st < 20 then 1 else 2))"
proof -
  let ?P = "\<lambda>line. timestamp line \<le> currentTime st"
  let ?n = "length (takeWhile ?P (lines st))"
  have r: "activeLineIndex st = int ?n - 1"
    by (rule activeLineIndex_takeWhile)
  have le: "?n \<le> length (lines st)"
    by (rule length_takeWhile_le)
  have nil: "?n = 0 \<longleftrightarrow> lines st = [] \<or> currentTime st < timestamp (hd (lines st))"
    by (auto simp: takeWhile_eq_Nil_iff)
  have before: "timestamp (lines st ! k) \<le> currentTime st" if "k < ?n" for k
    using that nth_mem [of k "takeWhile ?P (lines st)"]
    by (auto simp: takeWhile_nth dest: set_takeWhileD)
  have stop: "currentTime st < timestamp (lines st ! ?n)" if "?n < length (lines st)"
    using nth_length_takeWhile [OF that] by simp
  have ex: "activeLineIndex st = (if currentTime st < 0 then - 1
                                    else if currentTime st < 10 then 0
                                    else if currentTime st < 20 then 1 else 2)"
    if "map timestamp (lines st) = [0, 10, 20]"
  proof -
    from that obtain a b c where ls: "lines st = [a, b, c]"
      and ts: "timestamp a = 0" "timestamp b = 10" "timestamp c = 20"
      by (auto simp: map_eq_Cons_conv)
    show ?thesis
      unfolding r ls using ts by simp
  qed
  show ?thesis
    using r le nil before stop ex by (auto simp: nat_add_distrib)
qed

theorem activeLineIndex_scan_witness:
  "activeLineIndex (editing [exampleLine ''a'' 0 ''x'', exampleLine ''b'' 10 ''y'', exampleLine ''c'' 20 ''z''] (- 1)) = - 1
   \<and> activeLineIndex (editing [exampleLine ''a'' 0 ''x'', exampleLine ''b'' 10 ''y'', exampleLine ''c'' 20 ''z''] 0) = 0
   \<and> activeLineIndex (editing [exampleLine ''a'' 0 ''x'', exampleLine ''b'' 10 ''y'', exampleLine ''c'' 20 ''z''] (999 / 100)) = 0
   \<and> activeLineIndex (editing [exampleLine ''a'' 0 ''x'', exampleLine ''b'' 10 ''y'', exampleLine ''c'' 20 ''z''] 10) = 1
   \<and> activeLineIndex (editing [exampleLine ''a'' 0 ''x'', exampleLine ''b'' 10 ''y'', exampleLine ''c'' 20 ''z''] 25) = 2
   \<and> activeLineIndex (editing [] 3) = - 1
   \<and> activeLineIndex (editing [exampleLine ''a'' 5 ''x'', exampleLine ''b'' 1 ''y'', exampleLine ''c'' 2 ''z''] 3) = - 1
   \<and> activeLineIndex (editing [exampleLine ''a'' 1 ''x'', exampleLine ''b'' 5 ''y'', exampleLine ''c'' 2 ''z''] 3) = 0"
proof -
  have m: "map timestamp (lines (editing [exampleLine ''a'' 0 ''x'', exampleLine ''b'' 10 ''y'', exampleLine ''c'' 20 ''z''] t)) = [0, 10, 20]" for t
    by (simp add: example_defs)
  have c: "currentTime (editing ls t) = t" "lines (editing ls t) = ls" for ls t
    by (simp_all add: example_defs)
  show ?thesis
    using activeLineIndex_scan [of "editing [exampleLine ''a'' 0 ''x'', exampleLine ''b'' 10 ''y'', exampleLine ''c'' 20 ''z''] (- 1)"]
          activeLineIndex_scan [of "editing [exampleLine ''a'' 0 ''x'', exampleLine ''b'' 10 ''y'', exampleLine ''c'' 20 ''z''] 0"]
          activeLineIndex_scan [of "editing [exampleLine ''a'' 0 ''x'', exampleLine ''b'' 10 ''y'', exampleLine ''c'' 20 ''z''] (999 / 100)"]
          activeLineIndex_scan [of "editing [exampleLine ''a'' 0 ''x'', exampleLine ''b'' 10 ''y'', exampleLine ''c'' 20 ''z''] 10"]
          activeLineIndex_scan [of "editing [exampleLine ''a'' 0 ''x'', exampleLine ''b'' 10 ''y'', exampleLine ''c'' 20 ''z''] 25"]
          activeLineIndex_scan [of "editing [] 3"]
          activeLineIndex_scan [of "editing [exampleLine ''a'' 5 ''x'', exampleLine ''b'' 1 ''y'', exampleLine ''c'' 2 ''z''] 3"]
          activeLineIndex_scan [of "editing [exampleLine ''a'' 1 ''x'', exampleLine ''b'' 5 ''y'', exampleLine ''c'' 2 ''z''] 3"]
    unfolding m c by (simp add: exampleLine_def)
qed

section \<open>The manual mode\<close>

lemma map_snd_enumerate_fun: "map (\<lambda>p. f (snd p)) (enumerate n xs) = map f xs"
  using map_map [of f snd "enumerate n xs"] by (simp add: comp_def)

lemma map_constant: "map (\<lambda>p. c) xs = replicate (length xs) c"
  by (induction xs) auto

lemma fallbackLines_fields:
  "map line_text (fallbackLines ids text)
   = map trim (filter (\<lambda>l. trim l \<noteq> []) (split 0x0A text))"
  "map timestamp (fallbackLines ids text)
   = replicate (length (filter (\<lambda>l. trim l \<noteq> []) (split 0x0A text))) 0"
  "map needsReview (fallbackLines ids text)
   = replicate (length (filter (\<lambda>l. trim l \<noteq> []) (split 0x0A text))) (Some True)"
  by (simp_all add: fallbackLines_def split_def comp_def map_snd_enumerate_fun map_constant)

lemma split_example:
  "split 0x0A (js ''line one'' @ newline @ js ''line two'' @ newline @ newline @ js ''line three'')
   = [js ''line one'', js ''line two'', [], js ''line three'']"
  by (simp add: newline_def)

text \<open>
  C8. The manual fallback splits the raw text at newlines, drops the parts that are empty
  after trimming and makes one line of each part that is left, in order, with the trimmed
  part as text, timestamp 0 and \<open>needsReview = true\<close>; the \<open>catch\<close> of
  \<open>handleAutoProcess\<close> shows the error, installs these lines and goes to editing. The text
  \<open>line one\<close>, \<open>line two\<close>, an empty line, \<open>line three\<close> gives exactly three lines.
\<close>

theorem fallbackLines_manual:
  "length (fallbackLines ids text) = length (filter (\<lambda>l. trim l \<noteq> []) (split 0x0A text))
   \<and> map line_text (fallbackLines ids text)
       = map trim (filter (\<lambda>l. trim l \<noteq> []) (split 0x0A text))
   \<and> map timestamp (fallbackLines ids text) = replicate (length (fallbackLines ids text)) 0
   \<and> map needsReview (fallbackLines ids text)
       = replicate (length (fallbackLines ids text)) (Some True)
   \<and> processingFailed (inp\<lparr>textReread := Inr text\<rparr>) err st
       = st\<lparr>alerts := alerts st @ [AnalysisError err],
             lines := fallbackLines (idSupply inp) text, status := EDITING\<rparr>
   \<and> map line_text (fallbackLines ids
         (js ''line one'' @ newline @ js ''line two'' @ newline @ newline @ js ''line three''))
       = [js ''line one'', js ''line two'', js ''line three'']"
proof -
  have len: "length (fallbackLines ids text)
             = length (filter (\<lambda>l. trim l \<noteq> []) (split 0x0A text))"
    by (simp add: fallbackLines_def)
  have ex: "map line_text (fallbackLines ids
         (js ''line one'' @ newline @ js ''line two'' @ newline @ newline @ js ''line three''))
       = [js ''line one'', js ''line two'', js ''line three'']"
    unfolding fallbackLines_fields split_example by (simp add: trim_def isWhiteSpace_def)
  have pf: "processingFailed (inp\<lparr>textReread := Inr text\<rparr>) err st
       = st\<lparr>alerts := alerts st @ [AnalysisError err],
             lines := fallbackLines (idSupply inp) text, status := EDITING\<rparr>"
    by (simp add: processingFailed_def)
  have ts: "map timestamp (fallbackLines ids text) = replicate (length (fallbackLines ids text)) 0"
    by (simp add: fallbackLines_fields len)
  have nr: "map needsReview (fallbackLines ids text)
            = replicate (length (fallbackLines ids text)) (Some True)"
    by (simp add: fallbackLines_fields len)
  from len fallbackLines_fields(1) ts nr pf ex show ?thesis
    by (intro conjI)
qed

section \<open>Timestamps below zero\<close>

text \<open>
  C10. \<open>parseLrcTime\<close> has no lower bound: \<open>-1:30\<close> parses to \<open>-30\<close> and
  \<open>[00:-5.0]\<close> to \<open>-5\<close>. The mapping of the response puts the value parsed from an
  entry's time into the line as it is, so a response with the time \<open>-1:30\<close> leaves a line
  with timestamp \<open>-30\<close> in the document.
\<close>

theorem parseLrcTime_negative:
  "parseLrcTime (js ''-1:30'') = - 30
   \<and> parseLrcTime (js ''[00:-5.0]'') = - 5
   \<and> tryAnalyze ids (Lines [\<lparr>time = Some t, entry_text = s, confidence = Some c\<rparr>])
       = Inr [\<lparr>line_id = ids 0, timestamp = parseLrcTime t, line_text = s,
                needsReview = Some (c < 7 / 10)\<rparr>]
   \<and> map timestamp (lines (handleAutoProcess
         (filesRead raw (Lines [\<lparr>time = Some (js ''-1:30''), entry_text = js ''hello'',
                                  confidence = Some (9 / 10)\<rparr>]))
         initialState))
       = [- 30]"
proof -
  have p1: "parseLrcTime (js ''-1:30'') = - 30"
    by (simp add: parse_defs)
  have p2: "parseLrcTime (js ''[00:-5.0]'') = - 5"
    by (simp add: parse_defs)
  have m: "tryAnalyze ids (Lines [\<lparr>time = Some t, entry_text = s, confidence = Some c\<rparr>])
       = Inr [\<lparr>line_id = ids 0, timestamp = parseLrcTime t, line_text = s,
                needsReview = Some (c < 7 / 10)\<rparr>]" for ids t s c
    by (simp add: tryAnalyze_def)
  from p1 p2 show ?thesis
    by (simp add: m handleAutoProcess_def filesRead_def analyzeLyricsWithAudio_def
          initialState_def)
qed

section \<open>A failing call of the model\<close>

text \<open>
  C6 on the code. Each failure inside \<open>analyzeLyricsWithAudio\<close> (the request rejected, no
  text, no JSON, no \<open>lines\<close>, an entry without a time string) ends in its own \<open>catch\<close>,
  which returns the lines of the manual mode as the result of the call. For the raw lyrics
  \<open>a\<close> and a rejected request, \<open>handleAutoProcess\<close> therefore installs these lines and goes
  to editing with no alert shown, while a failure of the encoding step before the call does
  show one.
\<close>

theorem analysis_failure_silent:
  "tryAnalyze ids (Rejected msg) = Inl (Error msg)
   \<and> tryAnalyze ids NoText = Inl (Error (js ''No response from AI''))
   \<and> tryAnalyze ids BadJson = Inl SyntaxError
   \<and> tryAnalyze ids NoLines = Inl TypeError
   \<and> tryAnalyze ids (Lines [\<lparr>time = None, entry_text = s, confidence = c\<rparr>]) = Inl TypeError
   \<and> handleAutoProcess (filesRead (js ''a'') (Rejected (js ''quota exceeded''))) initialState
       = initialState\<lparr>status := EDITING,
            lines := [\<lparr>line_id = js ''id0'', timestamp = 0, line_text = js ''a'',
                       needsReview = Some True\<rparr>]\<rparr>
   \<and> alerts (handleAutoProcess (filesRead (js ''a'') (Rejected (js ''quota exceeded''))) initialState)
       = []
   \<and> alerts (handleAutoProcess
         ((filesRead (js ''a'') (Rejected (js ''quota exceeded'')))\<lparr>encoded := Inl (Error (js ''read''))\<rparr>)
         initialState)
       = [AnalysisError (Error (js ''read''))]"
proof -
  have f: "fallbackLines ids (js ''a'')
           = [\<lparr>line_id = ids 0, timestamp = 0, line_text = js ''a'', needsReview = Some True\<rparr>]" for ids
    by (simp add: fallbackLines_def trim_def isWhiteSpace_def)
  have d: "decimal 0 = js ''0''"
    by (simp add: decimal_def digitChar_def)
  from f d show ?thesis
    by (simp add: tryAnalyze_def handleAutoProcess_def processingFailed_def filesRead_def
          analyzeLyricsWithAudio_def initialState_def)
qed

lemma analysis_failure_general:
  "tryAnalyze (idSupply inp) (response inp) = Inl err \<Longrightarrow>
   audioFile inp = Some bytes \<Longrightarrow> bytes \<le> 25 * 1024 * 1024 \<Longrightarrow> textFile inp = Some u \<Longrightarrow>
   encoded inp = Inr b \<Longrightarrow> textRead inp = Inr raw \<Longrightarrow>
   handleAutoProcess inp st = st\<lparr>status := EDITING, lines := fallbackLines (idSupply inp) raw\<rparr>"
  by (simp add: handleAutoProcess_def analyzeLyricsWithAudio_def)

section \<open>The export\<close>

lemma insertBy_insort_key:
  "insertBy (\<lambda>a b. f a - f b) x ys = insort_key f x ys"
  by (induction ys) auto

lemma arraySort_sort_key:
  "arraySort (\<lambda>a b. f a - f b) xs = sort_key f xs"
  by (induction xs) (auto simp: insertBy_insort_key)

lemma format_2: "formatLrcTime 2 = js ''[00:02.00]''"
  by (simp add: format_defs)

lemma format_10: "formatLrcTime 10 = js ''[00:10.00]''"
  by (simp add: format_defs)

text \<open>
  C3. The export is the four header lines \<open>[ti:title]\<close>, \<open>[ar:artist]\<close>,
  \<open>[al:album]\<close>, \<open>[by:attribution]\<close> in this order, each followed by a newline, and
  then the body: the lines sorted by timestamp, each as its formatted timestamp directly
  followed by its text, joined by newlines. The sort is the stable sort by timestamp: the
  result is ascending, has the same lines, and lines of equal timestamp keep their order.
  The lines \<open>b\<close> at 10 and \<open>a\<close> at 2, in this display order, are exported with the
  \<open>a\<close> line first.
\<close>

theorem generateLrcOutput_layout:
  "generateLrcOutput st
     = js ''[ti:'' @ title (meta st) @ js '']'' @ newline
     @ js ''[ar:'' @ artist (meta st) @ js '']'' @ newline
     @ js ''[al:'' @ album (meta st) @ js '']'' @ newline
     @ js ''[by:'' @ meta_by (meta st) @ js '']'' @ newline
     @ join newline (map (\<lambda>line. formatLrcTime (timestamp line) @ line_text line)
                        (arraySort (\<lambda>a b. timestamp a - timestamp b) (lines st)))
   \<and> arraySort (\<lambda>a b. timestamp a - timestamp b) (lines st) = sort_key timestamp (lines st)
   \<and> sorted (map timestamp (arraySort (\<lambda>a b. timestamp a - timestamp b) (lines st)))
   \<and> mset (arraySort (\<lambda>a b. timestamp a - timestamp b) (lines st)) = mset (lines st)
   \<and> (\<forall>k. filter (\<lambda>line. timestamp line = k)
              (arraySort (\<lambda>a b. timestamp a - timestamp b) (lines st))
            = filter (\<lambda>line. timestamp line = k) (lines st))
   \<and> generateLrcOutput (editing [exampleLine ''1'' 10 ''b'', exampleLine ''2'' 2 ''a''] 0)
       = js ''[ti:]'' @ newline @ js ''[ar:]'' @ newline @ js ''[al:]'' @ newline
         @ js ''[by:LyricalSync AI]'' @ newline
         @ js ''[00:02.00]a'' @ newline @ js ''[00:10.00]b''"
proof -
  have ex: "generateLrcOutput (editing [exampleLine ''1'' 10 ''b'', exampleLine ''2'' 2 ''a''] 0)
       = js ''[ti:]'' @ newline @ js ''[ar:]'' @ newline @ js ''[al:]'' @ newline
         @ js ''[by:LyricalSync AI]'' @ newline
         @ js ''[00:02.00]a'' @ newline @ js ''[00:10.00]b''"
    using format_2 format_10 by (simp add: generateLrcOutput_def example_defs)
  have lay: "generateLrcOutput st
     = js ''[ti:'' @ title (meta st) @ js '']'' @ newline
     @ js ''[ar:'' @ artist (meta st) @ js '']'' @ newline
     @ js ''[al:'' @ album (meta st) @ js '']'' @ newline
     @ js ''[by:'' @ meta_by (meta st) @ js '']'' @ newline
     @ join newline (map (\<lambda>line. formatLrcTime (timestamp line) @ line_text line)
                        (arraySort (\<lambda>a b. timestamp a - timestamp b) (lines st)))"
    by (simp add: generateLrcOutput_def)
  show ?thesis
    unfolding arraySort_sort_key [of timestamp] using ex lay [unfolded arraySort_sort_key [of timestamp]]
    by (intro conjI allI) (simp_all add: sort_key_stable)
qed

section \<open>A negative time in the response\<close>

lemma toString_small: "0 \<le> i \<Longrightarrow> i < 2 ^ 53 \<Longrightarrow> toString i = decimal (nat i)"
proof -
  assume a: "0 \<le> i" "i < 2 ^ 53"
  then have "nat i < 2 ^ 53"
    by (simp add: nat_less_iff)
  moreover have "(2::nat) ^ 53 < 10 ^ 21"
    by simp
  ultimately show ?thesis
    using a by (simp add: toString_def shortest_def natToString_def)
qed

lemma format_m30: "formatLrcTime (- 30) = js ''[-1:-30.00]''"
proof -
  have m: "\<lfloor>round64 (- 30 / 60)\<rfloor> = - 1"
    by (simp add: round_defs)
  have c: "\<lceil>- (1 / 2 :: real)\<rceil> = 0"
    by (rule ceiling_unique) simp_all
  have s: "\<lfloor>jsmod (- 30) 60\<rfloor> = - 30"
    by (simp add: jsmod_def trunc_def c)
  have ms: "\<lfloor>round64 (jsmod (- 30) 1 * 100)\<rfloor> = 0"
    by (simp add: jsmod_def trunc_def round64_def)
  have t: "toString (- 1) = js ''-1''" "toString (- 30) = js ''-30''" "toString 0 = js ''0''"
    by (simp_all add: toString_def shortest_def natToString_def decimal_def digitChar_def)
  show ?thesis
    unfolding formatLrcTime_def Let_def m s ms t
    by (simp add: padStart_def)
qed

text \<open>
  C5 on the code. The response entry with the time \<open>-1:30\<close> for the lyrics \<open>hello\<close> is
  mapped to a line with timestamp \<open>-30\<close>: the document, which had no negative timestamp,
  has one, and the export writes the line as \<open>[-1:-30.00]hello\<close>. The nudge, where the
  source applies \<open>Math.max(0, ...)\<close>, takes a line at 0.05 back by 0.1 to 0.
\<close>

theorem negative_timestamp_from_response:
  "nonNegative initialState
   \<and> lines (handleAutoProcess
        (filesRead (js ''hello'')
           (Lines [\<lparr>time = Some (js ''-1:30''), entry_text = js ''hello'',
                    confidence = Some (9 / 10)\<rparr>]))
        initialState)
       = [\<lparr>line_id = js ''id0'', timestamp = - 30, line_text = js ''hello'',
            needsReview = Some False\<rparr>]
   \<and> \<not> nonNegative (handleAutoProcess
        (filesRead (js ''hello'')
           (Lines [\<lparr>time = Some (js ''-1:30''), entry_text = js ''hello'',
                    confidence = Some (9 / 10)\<rparr>]))
        initialState)
   \<and> generateLrcOutput (handleAutoProcess
        (filesRead (js ''hello'')
           (Lines [\<lparr>time = Some (js ''-1:30''), entry_text = js ''hello'',
                    confidence = Some (9 / 10)\<rparr>]))
        initialState)
       = js ''[ti:]'' @ newline @ js ''[ar:]'' @ newline @ js ''[al:]'' @ newline
         @ js ''[by:LyricalSync AI]'' @ newline @ js ''[-1:-30.00]hello''
   \<and> map timestamp (lines (adjustTime (exampleLine ''a'' (1 / 20) ''x'') (- (1 / 10))
                                (editing [exampleLine ''a'' (1 / 20) ''x''] 3)))
       = [0]"
proof -
  have p: "parseLrcTime (js ''-1:30'') = - 30"
    by (simp add: parse_defs)
  have d: "decimal 0 = js ''0''"
    by (simp add: decimal_def digitChar_def)
  have st: "handleAutoProcess
        (filesRead (js ''hello'')
           (Lines [\<lparr>time = Some (js ''-1:30''), entry_text = js ''hello'',
                    confidence = Some (9 / 10)\<rparr>]))
        initialState
      = initialState\<lparr>status := EDITING,
          lines := [\<lparr>line_id = js ''id0'', timestamp = - 30, line_text = js ''hello'',
                     needsReview = Some False\<rparr>]\<rparr>"
    using p d
    by (simp add: handleAutoProcess_def filesRead_def analyzeLyricsWithAudio_def tryAnalyze_def
          initialState_def)
  have out: "generateLrcOutput (initialState\<lparr>status := EDITING,
          lines := [\<lparr>line_id = js ''id0'', timestamp = - 30, line_text = js ''hello'',
                     needsReview = Some False\<rparr>]\<rparr>)
       = js ''[ti:]'' @ newline @ js ''[ar:]'' @ newline @ js ''[al:]'' @ newline
         @ js ''[by:LyricalSync AI]'' @ newline @ js ''[-1:-30.00]hello''"
    using format_m30 by (simp add: generateLrcOutput_def initialState_def)
  have adj: "map timestamp (lines (adjustTime (exampleLine ''a'' (1 / 20) ''x'') (- (1 / 10))
                                (editing [exampleLine ''a'' (1 / 20) ''x''] 3)))
       = [0]"
    by (simp add: adjustTime_def handleUpdateLine_def spread_def noUpdates_def example_defs)
  have n0: "nonNegative initialState"
    by (simp add: nonNegative_def initialState_def)
  show ?thesis
    unfolding st using n0 out adj by (simp add: nonNegative_def)
qed

section \<open>The round trip of the time codec\<close>

lemma format_2999: "formatLrcTime (8441434551552573 / 2 ^ 48) = js ''[00:29.98]''"
proof -
  have m: "\<lfloor>round64 (8441434551552573 / 2 ^ 48 / 60)\<rfloor> = 0"
    by (simp add: round_defs)
  have s: "\<lfloor>jsmod (8441434551552573 / 2 ^ 48) 60\<rfloor> = 29"
    by (simp add: jsmod_def trunc_def)
  have f: "jsmod (8441434551552573 / 2 ^ 48) 1 * 100 = 6966505673588725 / 2 ^ 46"
    by (simp add: jsmod_def trunc_def)
  have ms: "\<lfloor>round64 (6966505673588725 / 2 ^ 46)\<rfloor> = 98"
    by (simp add: round_defs)
  show ?thesis
    unfolding formatLrcTime_def Let_def m s f ms
    by (simp add: toString_small decimal_def digitChar_def padStart_def)
qed

lemma format_big: "formatLrcTime (2 ^ 55 + 56) = js ''[600479950316067:04.00]''"
proof -
  have m: "\<lfloor>round64 ((2 ^ 55 + 56) / 60)\<rfloor> = 600479950316067"
    by (simp add: round_defs)
  have s: "\<lfloor>jsmod (2 ^ 55 + 56) 60\<rfloor> = 4"
    by (simp add: jsmod_def trunc_def)
  have ms: "\<lfloor>round64 (jsmod (2 ^ 55 + 56) 1 * 100)\<rfloor> = 0"
    by (simp add: jsmod_def trunc_def round64_def)
  show ?thesis
    unfolding formatLrcTime_def Let_def m s ms
    by (simp add: toString_small decimal_def digitChar_def padStart_def)
qed

lemma parse_big: "parseLrcTime (js ''[600479950316067:04.00]'') = 2 ^ 55 + 48"
  by (simp add: parse_defs)

lemma shortestDigits_numeral:
  "shortestDigits (numeral k) j n =
     (if j = 0 then n
      else (let lo = n div 10 ^ j * 10 ^ j;
                hi = lo + 10 ^ j;
                okLo = (round64 (real lo) = real n);
                okHi = (round64 (real hi) = real n)
            in if okLo \<and> okHi then
                 (if n - lo < hi - n then lo
                  else if hi - n < n - lo then hi
                  else if even (n div 10 ^ j) then lo else hi)
               else if okLo then lo
               else if okHi then hi
               else shortestDigits (pred_numeral k) (j - 1) n))"
  by (simp add: numeral_eq_Suc)

lemma shortest_limit: "shortest (10 ^ 21) = 10 ^ 21"
proof -
  have d: "length (digits (10 ^ 21)) = 22"
    by simp
  have lo: "round64 (real (10 ^ 21)) = real (10 ^ 21)"
    by (simp add: round_defs)
  have hi: "round64 (real (2 * 10 ^ 21)) \<noteq> real (10 ^ 21)"
    by (simp add: round_defs)
  have "shortestDigits 22 (22 - 1) (10 ^ 21) = 10 ^ 21"
    using lo hi by (subst shortestDigits_numeral) (simp add: Let_def)
  then show ?thesis
    unfolding shortest_def d by simp
qed

lemma natToString_limit: "natToString (10 ^ 21) = js ''1e+21''"
proof -
  have d: "digits (10 ^ 21) = [1, 0, 0, 0, 0, 0, 0, 0, 0, 0, 0, 0, 0, 0, 0, 0, 0, 0, 0, 0, 0, 0]"
    by simp
  have l: "length [1, 0, 0, 0, 0, 0, 0, 0, 0, 0, 0, 0, 0, 0, 0, 0, 0, 0, 0, 0, 0, 0 :: nat] - 1 = 21"
    by simp
  show ?thesis
    unfolding natToString_def Let_def d l
    by (simp add: stripTrailingZeros_def decimal_def digitChar_def)
qed

lemma format_limit: "formatLrcTime (6 * 10 ^ 22) = js ''[1e+21:00.00]''"
proof -
  have m: "\<lfloor>round64 (6 * 10 ^ 22 / 60)\<rfloor> = 10 ^ 21"
    by (simp add: round_defs)
  have s: "\<lfloor>jsmod (6 * 10 ^ 22) 60\<rfloor> = 0"
    by (simp add: jsmod_def trunc_def)
  have ms: "\<lfloor>round64 (jsmod (6 * 10 ^ 22) 1 * 100)\<rfloor> = 0"
    by (simp add: jsmod_def trunc_def round64_def)
  have t: "toString (10 ^ 21) = js ''1e+21''"
    using natToString_limit shortest_limit by (simp add: toString_def)
  have z: "toString 0 = js ''0''"
    by (simp add: toString_small decimal_def digitChar_def)
  show ?thesis
    unfolding formatLrcTime_def Let_def m s ms t z
    by (simp add: padStart_def)
qed

lemma parse_limit: "parseLrcTime (js ''[1e+21:00.00]'') = 60"
  by (simp add: parse_defs)

text \<open>
  C1 on the code. The number that \<open>parseLrcTime\<close> gives for \<open>[00:29.99]\<close> is the binary64
  value nearest to 29.99, which lies just below it. \<open>formatLrcTime\<close> takes the floor of
  its fraction times 100, which is 98, and writes \<open>[00:29.98]\<close>, so parsing the formatted
  time gives the value nearest to 29.98 and not the number formatted. The round trip is
  also lost at exact multiples of a hundredth: \<open>2^55 + 56\<close> comes back as \<open>2^55 + 48\<close>,
  because the sum of the parsed minutes and seconds is rounded, and \<open>6 * 10^22\<close> comes back
  as 60, because its minutes are written \<open>1e+21\<close>.
\<close>

theorem roundtrip_loses_hundredth:
  "round64 (2999 / 100) = 8441434551552573 / 2 ^ 48
   \<and> parseLrcTime (js ''[00:29.99]'') = 8441434551552573 / 2 ^ 48
   \<and> formatLrcTime (8441434551552573 / 2 ^ 48) = js ''[00:29.98]''
   \<and> parseLrcTime (formatLrcTime (8441434551552573 / 2 ^ 48)) = 8438619801785467 / 2 ^ 48
   \<and> parseLrcTime (formatLrcTime (8441434551552573 / 2 ^ 48)) \<noteq> 8441434551552573 / 2 ^ 48
   \<and> formatLrcTime (2 ^ 55 + 56) = js ''[600479950316067:04.00]''
   \<and> parseLrcTime (formatLrcTime (2 ^ 55 + 56)) = 2 ^ 55 + 48
   \<and> formatLrcTime (6 * 10 ^ 22) = js ''[1e+21:00.00]''
   \<and> parseLrcTime (formatLrcTime (6 * 10 ^ 22)) = 60"
proof -
  have v: "round64 (2999 / 100) = 8441434551552573 / 2 ^ 48"
    by (simp add: round_defs)
  have p99: "parseLrcTime (js ''[00:29.99]'') = 8441434551552573 / 2 ^ 48"
    by (simp add: parse_defs)
  have p98: "parseLrcTime (js ''[00:29.98]'') = 8438619801785467 / 2 ^ 48"
    by (simp add: parse_defs)
  have ne: "(8438619801785467 / 2 ^ 48 :: real) \<noteq> 8441434551552573 / 2 ^ 48"
    by simp
  show ?thesis
    unfolding format_2999 format_big format_limit p98 parse_big parse_limit
    using v p99 ne by (intro conjI) simp_all
qed

end
